theory Spec2Isabelle
  imports Complex_Main
begin

section \<open>Data model\<close>

text \<open>
  Timestamps (\<^verbatim>\<open>TIMESTAMPTZ\<close>) are integers counting microseconds, the resolution of the
  database; \<^verbatim>\<open>interval '15 seconds'\<close> is 15000000 and \<^verbatim>\<open>interval '24 hours'\<close> is
  86400000000. A \<^verbatim>\<open>UUID\<close> is the natural number its sixteen bytes spell, which orders
  as the database compares them. \<^verbatim>\<open>DOUBLE PRECISION\<close> values are taken as real numbers.
  A nullable column or argument is an \<open>option\<close>, \<open>None\<close> being \<^verbatim>\<open>NULL\<close>.
\<close>

type_synonym timestamptz = int
type_synonym uuid = nat

text \<open>A row of table \<^verbatim>\<open>confessions\<close> after migrations 001 to 007.\<close>

record confessions_row =
  c_id :: uuid
  c_text :: string
  c_created_at :: timestamptz
  c_expires_at :: timestamptz
  c_is_hidden :: "bool option"
  c_lat :: "real option"
  c_lng :: "real option"
  c_user_id :: "uuid option"

text \<open>The six columns both procedures return, the client's type \<^verbatim>\<open>Confession\<close>.\<close>

record Confession =
  conf_id :: uuid
  conf_text :: string
  conf_created_at :: timestamptz
  conf_expires_at :: timestamptz
  conf_lat :: "real option"
  conf_lng :: "real option"

definition select_fields :: "confessions_row \<Rightarrow> Confession" where
  "select_fields c =
     \<lparr>conf_id = c_id c, conf_text = c_text c, conf_created_at = c_created_at c,
      conf_expires_at = c_expires_at c, conf_lat = c_lat c, conf_lng = c_lng c\<rparr>"

text \<open>The exceptions the two procedures raise, by the tag that starts their message.\<close>

datatype pg_exception =
  EMPTY_TEXT | TEXT_TOO_LONG | CONTENT_BLOCKED | RATE_LIMIT | LAT_LNG_REQUIRED | UNIQUE_VIOLATION

section \<open>The feed query: \<^verbatim>\<open>get_confess_feed\<close>\<close>

record feed_args =
  p_mode :: "string option"
  p_limit :: "int option"
  p_cursor_created_at :: "timestamptz option"
  p_cursor_id :: "uuid option"
  p_lat :: "real option"
  p_lng :: "real option"
  p_radius_m :: "int option"

definition COALESCE :: "'a option \<Rightarrow> 'a \<Rightarrow> 'a" where
  "COALESCE v d = (case v of None \<Rightarrow> d | Some x \<Rightarrow> x)"

text \<open>\<^verbatim>\<open>v_limit := GREATEST(10, LEAST(50, COALESCE(p_limit, 30)))\<close>\<close>

definition v_limit :: "feed_args \<Rightarrow> int" where
  "v_limit a = max 10 (min 50 (COALESCE (p_limit a) 30))"

text \<open>\<^verbatim>\<open>v_radius := GREATEST(100, LEAST(50000, COALESCE(p_radius_m, 10000)))\<close>\<close>

definition v_radius :: "feed_args \<Rightarrow> int" where
  "v_radius a = max 100 (min 50000 (COALESCE (p_radius_m a) 10000))"

definition radians :: "real \<Rightarrow> real" where
  "radians d = d * pi / 180"

text \<open>The distance in meters of the near branch, with the argument of \<^verbatim>\<open>acos\<close> clamped.\<close>

definition distance_m :: "real \<Rightarrow> real \<Rightarrow> real \<Rightarrow> real \<Rightarrow> real" where
  "distance_m plat plng lat lng =
     6371000 * arccos (min 1 (max (- 1)
       (cos (radians plat) * cos (radians lat) * cos (radians lng - radians plng)
        + sin (radians plat) * sin (radians lat))))"

text \<open>\<^verbatim>\<open>c.expires_at > now() AND COALESCE(c.is_hidden, false) = false\<close>\<close>

definition visible :: "timestamptz \<Rightarrow> confessions_row \<Rightarrow> bool" where
  "visible now c = (c_expires_at c > now \<and> COALESCE (c_is_hidden c) False = False)"

text \<open>
  The location conditions of the near branch. A comparison with \<^verbatim>\<open>NULL\<close> is not true, so a row
  that lacks a coordinate fails them.
\<close>

definition within_radius :: "real \<Rightarrow> real \<Rightarrow> int \<Rightarrow> confessions_row \<Rightarrow> bool" where
  "within_radius plat plng radius c =
     (case c_lat c of None \<Rightarrow> False
      | Some lat \<Rightarrow>
          (case c_lng c of None \<Rightarrow> False
           | Some lng \<Rightarrow> distance_m plat plng lat lng \<le> real_of_int radius))"

text \<open>
  The keyset condition
  \<^verbatim>\<open>p_cursor_created_at IS NULL OR c.created_at < p_cursor_created_at
   OR (c.created_at = p_cursor_created_at AND c.id < p_cursor_id)\<close>.
  With a timestamp and a \<^verbatim>\<open>NULL\<close> id the last disjunct is never true.
\<close>

definition keyset :: "timestamptz option \<Rightarrow> uuid option \<Rightarrow> confessions_row \<Rightarrow> bool" where
  "keyset cursor_created_at cursor_id c =
     (case cursor_created_at of None \<Rightarrow> True
      | Some t \<Rightarrow>
          c_created_at c < t
          \<or> (c_created_at c = t \<and> (case cursor_id of None \<Rightarrow> False | Some i \<Rightarrow> c_id c < i)))"

text \<open>\<^verbatim>\<open>ORDER BY c.created_at DESC, c.id DESC\<close>: \<open>feed_order a b\<close> lets \<open>a\<close> stand before \<open>b\<close>.\<close>

definition feed_order :: "confessions_row \<Rightarrow> confessions_row \<Rightarrow> bool" where
  "feed_order a b =
     (c_created_at b < c_created_at a \<or> (c_created_at b = c_created_at a \<and> c_id b \<le> c_id a))"

fun insert_desc :: "confessions_row \<Rightarrow> confessions_row list \<Rightarrow> confessions_row list" where
  "insert_desc c [] = [c]"
| "insert_desc c (d # ds) = (if feed_order c d then c # d # ds else d # insert_desc c ds)"

fun order_by_desc :: "confessions_row list \<Rightarrow> confessions_row list" where
  "order_by_desc [] = []"
| "order_by_desc (c # cs) = insert_desc c (order_by_desc cs)"

text \<open>\<^verbatim>\<open>LIMIT n\<close> of a query's rows.\<close>

definition LIMIT :: "int \<Rightarrow> 'a list \<Rightarrow> 'a list" where
  "LIMIT n rows = take (nat n) rows"

text \<open>
  The procedure of migration 006 (migration 011 repeats it with other comments), over the
  table and the value of \<^verbatim>\<open>now()\<close>.
\<close>

definition get_confess_feed ::
  "confessions_row list \<Rightarrow> timestamptz \<Rightarrow> feed_args \<Rightarrow> pg_exception + Confession list" where
  "get_confess_feed tbl now a =
     (if p_mode a = Some ''near'' then
        (case p_lat a of None \<Rightarrow> Inl LAT_LNG_REQUIRED
         | Some plat \<Rightarrow>
             (case p_lng a of None \<Rightarrow> Inl LAT_LNG_REQUIRED
              | Some plng \<Rightarrow>
                  Inr (map select_fields
                    (LIMIT (v_limit a)
                      (order_by_desc
                        (filter (\<lambda>c. visible now c \<and> within_radius plat plng (v_radius a) c
                                   \<and> keyset (p_cursor_created_at a) (p_cursor_id a) c)
                           tbl))))))
      else
        Inr (map select_fields
          (LIMIT (v_limit a)
            (order_by_desc
              (filter (\<lambda>c. visible now c \<and> keyset (p_cursor_created_at a) (p_cursor_id a) c)
                 tbl)))))"

section \<open>The client's feed wrapper: \<^verbatim>\<open>fetchFeed\<close>\<close>

text \<open>
  What \<^verbatim>\<open>await supabase.rpc(...)\<close> gives: \<^verbatim>\<open>{data, error}\<close> with one of the two set, or a
  rejected promise.
\<close>

datatype 'a rpc_result = RpcData 'a | RpcError string | RpcThrows

text \<open>
  What a call of a client function gives its caller. \<open>Throws\<close> stands for an exception
  that leaves the function (a rejected promise).
\<close>

datatype 'a outcome = Returns 'a | Throws

datatype FeedMode = Mode_world | Mode_near

fun mode_string :: "FeedMode \<Rightarrow> string" where
  "mode_string Mode_world = ''world''"
| "mode_string Mode_near = ''near''"

record PageCursor =
  created_at :: timestamptz
  cursor_id :: uuid

record FeedResult =
  confessions :: "Confession list"
  nextCursor :: "PageCursor option"
  hasMore :: bool

text \<open>An optional field that is \<^verbatim>\<open>undefined\<close> (or \<^verbatim>\<open>null\<close>) is \<open>None\<close>.\<close>

record FetchFeedParams =
  mode :: FeedMode
  cursor :: "PageCursor option"
  limit :: "int option"
  lat :: "real option"
  lng :: "real option"
  radiusM :: "int option"

text \<open>The arguments of \<^verbatim>\<open>insert_confession\<close>, as the client sends them.\<close>

record insert_args =
  p_text :: "string option"
  p_place_label :: "string option"
  p_ins_lat :: "real option"
  p_ins_lng :: "real option"

text \<open>The \<^verbatim>\<open>data\<close> of the insert call: \<^verbatim>\<open>null\<close>, one row, or an array of rows.\<close>

datatype insert_data = DataNull | DataRow Confession | DataArray "Confession list"

text \<open>The configured client, by the two remote procedures the wrappers call.\<close>

record supabase_client =
  rpc_get_confess_feed :: "feed_args \<Rightarrow> Confession list option rpc_result"
  rpc_insert_confession :: "insert_args \<Rightarrow> insert_data rpc_result"

definition DEFAULT_LIMIT :: int where
  "DEFAULT_LIMIT = 30"

text \<open>\<^verbatim>\<open>items.slice(0, n)\<close>: a negative \<open>n\<close> counts from the end.\<close>

definition slice0 :: "'a list \<Rightarrow> int \<Rightarrow> 'a list" where
  "slice0 items n =
     (if n < 0 then take (nat (int (length items) + n)) items else take (nat n) items)"

definition empty_feed :: FeedResult where
  "empty_feed = \<lparr>confessions = [], nextCursor = None, hasMore = False\<rparr>"

text \<open>\<^verbatim>\<open>const requestLimit = Math.min(limit, 50) + 1\<close>, with the default of \<^verbatim>\<open>limit\<close>.\<close>

definition requestLimit :: "FetchFeedParams \<Rightarrow> int" where
  "requestLimit params = min (COALESCE (limit params) DEFAULT_LIMIT) 50 + 1"

text \<open>The arguments of the remote call, \<^verbatim>\<open>const rpcParams = {...}\<close>.\<close>

definition rpcParams :: "FetchFeedParams \<Rightarrow> feed_args" where
  "rpcParams params =
     \<lparr>p_mode = Some (mode_string (mode params)),
      p_limit = Some (requestLimit params),
      p_cursor_created_at = (map_option created_at (cursor params)),
      p_cursor_id = (map_option cursor_id (cursor params)),
      p_lat = (lat params),
      p_lng = (lng params),
      p_radius_m = Some (COALESCE (radiusM params) 1000)\<rparr>"

definition fetchFeed :: "supabase_client option \<Rightarrow> FetchFeedParams \<Rightarrow> FeedResult outcome" where
  "fetchFeed supabase params =
     (let page_size = COALESCE (limit params) DEFAULT_LIMIT
      in case supabase of
           None \<Rightarrow> Returns empty_feed
         | Some client \<Rightarrow>
             if mode params = Mode_near \<and> (lat params = None \<or> lng params = None)
             then Returns empty_feed
             else
               (case rpc_get_confess_feed client (rpcParams params) of
                  RpcThrows \<Rightarrow> Returns empty_feed
                | RpcError msg \<Rightarrow> Returns empty_feed
                | RpcData data \<Rightarrow>
                    (let items = COALESCE data [];
                         more = (int (length items) > page_size);
                         page = (if more then slice0 items page_size else items);
                         next =
                           (if length page > 0
                            then Some \<lparr>created_at = (conf_created_at (last page)),
                                       cursor_id = (conf_id (last page))\<rparr>
                            else None)
                     in Returns \<lparr>confessions = page, nextCursor = next, hasMore = more\<rparr>)))"

section \<open>The admission operation: \<^verbatim>\<open>insert_confession\<close> (migration 008)\<close>

text \<open>
  A text is a list of characters, one \<open>char\<close> each, so \<open>length\<close> is \<^verbatim>\<open>char_length\<close>. The
  classes of the regular expressions are the ASCII ones: a character outside ASCII is
  no letter, no digit and no space.
\<close>

definition is_digit :: "char \<Rightarrow> bool" where
  "is_digit c = (c \<in> set ''0123456789'')"

definition is_upper :: "char \<Rightarrow> bool" where
  "is_upper c = (c \<in> set ''ABCDEFGHIJKLMNOPQRSTUVWXYZ'')"

definition is_lower :: "char \<Rightarrow> bool" where
  "is_lower c = (c \<in> set ''abcdefghijklmnopqrstuvwxyz'')"

text \<open>The class \<^verbatim>\<open>\s\<close>: space, tab, line feed, vertical tab, form feed, carriage return.\<close>

definition is_space :: "char \<Rightarrow> bool" where
  "is_space c = (c \<in> set [CHR '' '', CHR 0x09, CHR 0x0A, CHR 0x0B, CHR 0x0C, CHR 0x0D])"

text \<open>A word character of \<^verbatim>\<open>\m\<close> and \<^verbatim>\<open>\M\<close>: a letter, a digit or the underscore.\<close>

definition is_word :: "char \<Rightarrow> bool" where
  "is_word c = (is_upper c \<or> is_lower c \<or> is_digit c \<or> c = CHR ''_'')"

definition lower_char :: "char \<Rightarrow> char" where
  "lower_char c =
     (case map_of (zip ''ABCDEFGHIJKLMNOPQRSTUVWXYZ'' ''abcdefghijklmnopqrstuvwxyz'') c of
        None \<Rightarrow> c
      | Some l \<Rightarrow> l)"

text \<open>\<^verbatim>\<open>btrim(p_text)\<close> with no second argument strips spaces, and only spaces, from both ends.\<close>

definition btrim :: "string \<Rightarrow> string" where
  "btrim s = rev (dropWhile (\<lambda>c. c = CHR '' '') (rev (dropWhile (\<lambda>c. c = CHR '' '') s)))"

text \<open>
  \<open>v ~ re\<close>: the expression matches somewhere in the text. An expression is given by its
  match at one place, from the character before the place (none at the start) and the
  text from the place on.
\<close>

fun search_from :: "(char option \<Rightarrow> string \<Rightarrow> bool) \<Rightarrow> char option \<Rightarrow> string \<Rightarrow> bool" where
  "search_from re prev [] = re prev []"
| "search_from re prev (c # cs) = (re prev (c # cs) \<or> search_from re (Some c) cs)"

definition regex_match :: "string \<Rightarrow> (char option \<Rightarrow> string \<Rightarrow> bool) \<Rightarrow> bool" where
  "regex_match v re = search_from re None v"

text \<open>The text at a place starts with the lower-case \<open>pat\<close>, case ignored (\<^verbatim>\<open>~*\<close>).\<close>

definition starts_ci :: "string \<Rightarrow> string \<Rightarrow> bool" where
  "starts_ci pat s = (map lower_char (take (length pat) s) = pat)"

text \<open>\<^verbatim>\<open>\m\<close>, the beginning of a word, and \<^verbatim>\<open>\M\<close>, the end of a word.\<close>

definition word_start :: "char option \<Rightarrow> string \<Rightarrow> bool" where
  "word_start prev s =
     ((case s of [] \<Rightarrow> False | c # cs \<Rightarrow> is_word c)
      \<and> (case prev of None \<Rightarrow> True | Some b \<Rightarrow> \<not> is_word b))"

definition word_end :: "char option \<Rightarrow> string \<Rightarrow> bool" where
  "word_end prev s =
     ((case prev of None \<Rightarrow> False | Some b \<Rightarrow> is_word b)
      \<and> (case s of [] \<Rightarrow> True | c # cs \<Rightarrow> \<not> is_word c))"

text \<open>\<^verbatim>\<open>https?://\<close>\<close>

definition re_url :: "char option \<Rightarrow> string \<Rightarrow> bool" where
  "re_url prev s = (starts_ci ''http://'' s \<or> starts_ci ''https://'' s)"

text \<open>\<^verbatim>\<open>\mwww\.\<close>\<close>

definition re_www :: "char option \<Rightarrow> string \<Rightarrow> bool" where
  "re_www prev s = (word_start prev s \<and> starts_ci ''www.'' s)"

text \<open>\<^verbatim>\<open>\.(com|net|org|no|io|co|app)\M\<close>\<close>

definition re_tld :: "char option \<Rightarrow> string \<Rightarrow> bool" where
  "re_tld prev s =
     list_ex
       (\<lambda>tld. starts_ci (CHR ''.'' # tld) s
              \<and> word_end (Some (last (take (Suc (length tld)) s))) (drop (Suc (length tld)) s))
       [''com'', ''net'', ''org'', ''no'', ''io'', ''co'', ''app'']"

text \<open>\<^verbatim>\<open>\+\s*[0-9]\<close>\<close>

definition re_plus :: "char option \<Rightarrow> string \<Rightarrow> bool" where
  "re_plus prev s =
     (case s of [] \<Rightarrow> False
      | c # cs \<Rightarrow>
          c = CHR ''+''
          \<and> (case dropWhile is_space cs of [] \<Rightarrow> False | d # ds \<Rightarrow> is_digit d))"

text \<open>
  \<^verbatim>\<open>[A-Z][a-z]+\<close> at the start of a text, followed by no further lower-case letter: the
  rest of the text, if it matches.
\<close>

definition capitalized :: "string \<Rightarrow> string option" where
  "capitalized s =
     (case s of [] \<Rightarrow> None
      | u # r \<Rightarrow>
          if is_upper u \<and> takeWhile is_lower r \<noteq> [] then Some (dropWhile is_lower r) else None)"

text \<open>
  \<^verbatim>\<open>\m[A-Z][a-z]+\s+[A-Z][a-z]+\M\<close>. What follows each repetition is of another class
  than what it repeats, so each repetition takes all it can.
\<close>

definition re_name :: "char option \<Rightarrow> string \<Rightarrow> bool" where
  "re_name prev s =
     (word_start prev s
      \<and> (case capitalized s of None \<Rightarrow> False
         | Some r1 \<Rightarrow>
             takeWhile is_space r1 \<noteq> []
             \<and> (case capitalized (dropWhile is_space r1) of None \<Rightarrow> False
                | Some r2 \<Rightarrow> (case r2 of [] \<Rightarrow> True | c # cs \<Rightarrow> \<not> is_word c))))"

text \<open>\<^verbatim>\<open>regexp_replace(v_text, '[^0-9]', '', 'g')\<close>\<close>

definition digits_only :: "string \<Rightarrow> string" where
  "digits_only v = filter is_digit v"

text \<open>The six checks of the content filter, in the order of the procedure.\<close>

definition blocks_at :: "string \<Rightarrow> bool" where
  "blocks_at v = (CHR ''@'' \<in> set v)"

definition blocks_url :: "string \<Rightarrow> bool" where
  "blocks_url v = (regex_match v re_url \<or> regex_match v re_www)"

definition blocks_tld :: "string \<Rightarrow> bool" where
  "blocks_tld v = regex_match v re_tld"

definition blocks_digits :: "string \<Rightarrow> bool" where
  "blocks_digits v = (length (digits_only v) \<ge> 8)"

definition blocks_plus :: "string \<Rightarrow> bool" where
  "blocks_plus v = regex_match v re_plus"

definition blocks_name :: "string \<Rightarrow> bool" where
  "blocks_name v = regex_match v re_name"

text \<open>
  \<^verbatim>\<open>SELECT c.created_at INTO v_last_post FROM confessions c WHERE c.user_id = v_user_id
   ORDER BY c.created_at DESC LIMIT 1\<close>: the newest timestamp, \<^verbatim>\<open>NULL\<close> without a row.
\<close>

fun newest :: "timestamptz list \<Rightarrow> timestamptz option" where
  "newest [] = None"
| "newest (t # ts) = (case newest ts of None \<Rightarrow> Some t | Some m \<Rightarrow> Some (max t m))"

definition last_post :: "confessions_row list \<Rightarrow> uuid \<Rightarrow> timestamptz option" where
  "last_post tbl uid =
     newest (map c_created_at (filter (\<lambda>c. c_user_id c = Some uid) tbl))"

text \<open>
  The rate limiting block:
  \<^verbatim>\<open>IF v_user_id IS NOT NULL THEN ... IF v_last_post IS NOT NULL
   AND v_last_post > now() - interval '15 seconds' THEN RAISE\<close>.
\<close>

definition rate_limited :: "confessions_row list \<Rightarrow> timestamptz \<Rightarrow> uuid option \<Rightarrow> bool" where
  "rate_limited tbl now v_user_id =
     (case v_user_id of None \<Rightarrow> False
      | Some uid \<Rightarrow>
          (case last_post tbl uid of None \<Rightarrow> False
           | Some v_last_post \<Rightarrow> v_last_post > now - 15000000))"

text \<open>
  The procedure, over the table, \<^verbatim>\<open>now()\<close>, \<^verbatim>\<open>auth.uid()\<close> and the identifier that
  \<^verbatim>\<open>gen_random_uuid()\<close> draws for the new row. It gives the row it returns and the table
  after the insert, or the exception it raises.
\<close>

definition insert_confession ::
  "confessions_row list \<Rightarrow> timestamptz \<Rightarrow> uuid option \<Rightarrow> uuid \<Rightarrow> insert_args
     \<Rightarrow> pg_exception + (Confession list \<times> confessions_row list)" where
  "insert_confession tbl now v_user_id new_id a =
     (case map_option btrim (p_text a) of
        None \<Rightarrow> Inl EMPTY_TEXT
      | Some v_text \<Rightarrow>
          if v_text = [] then Inl EMPTY_TEXT
          else if length v_text > 120 then Inl TEXT_TOO_LONG
          else if blocks_at v_text then Inl CONTENT_BLOCKED
          else if blocks_url v_text then Inl CONTENT_BLOCKED
          else if blocks_tld v_text then Inl CONTENT_BLOCKED
          else if blocks_digits v_text then Inl CONTENT_BLOCKED
          else if blocks_plus v_text then Inl CONTENT_BLOCKED
          else if blocks_name v_text then Inl CONTENT_BLOCKED
          else if rate_limited tbl now v_user_id then Inl RATE_LIMIT
          else if new_id \<in> set (map c_id tbl) then Inl UNIQUE_VIOLATION
          else
            (let inserted =
                   \<lparr>c_id = new_id, c_text = v_text, c_created_at = now,
                    c_expires_at = now + 86400000000, c_is_hidden = Some False,
                    c_lat = (p_ins_lat a), c_lng = (p_ins_lng a), c_user_id = v_user_id\<rparr>;
                 tbl' = tbl @ [inserted]
             in Inr (map select_fields (filter (\<lambda>c. c_id c = new_id) tbl'),
                     tbl')))"

section \<open>The client's insert wrapper: \<^verbatim>\<open>insertConfession\<close>\<close>

record InsertConfessionParams =
  text_in :: "string option"
  placeLabel :: "string option"
  lat_in :: "real option"
  lng_in :: "real option"

text \<open>
  \<^verbatim>\<open>{ok: true, confession}\<close> or \<^verbatim>\<open>{ok: false, error, message}\<close>, the error being one of
  the five tags.
\<close>

datatype InsertConfessionResult = Ok_true Confession | Ok_false string string

text \<open>\<^verbatim>\<open>msg.includes(tag)\<close>\<close>

fun js_includes :: "string \<Rightarrow> string \<Rightarrow> bool" where
  "js_includes [] tag = (tag = [])"
| "js_includes (c # cs) tag = (take (length tag) (c # cs) = tag \<or> js_includes cs tag)"

text \<open>
  \<^verbatim>\<open>Array.isArray(data) && data.length > 0 ? data[0] : data\<close>, then the test
  \<^verbatim>\<open>!row || !row.id\<close>: an empty array and \<^verbatim>\<open>null\<close> have no \<^verbatim>\<open>id\<close>; the \<^verbatim>\<open>id\<close> of a row is
  a UUID, a string that is not empty.
\<close>

fun first_row :: "insert_data \<Rightarrow> Confession option" where
  "first_row DataNull = None"
| "first_row (DataRow r) = Some r"
| "first_row (DataArray []) = None"
| "first_row (DataArray (r # rs)) = Some r"

text \<open>The message of the rate limit is spelled with the bytes the source file holds.\<close>

definition insertConfession ::
  "supabase_client option \<Rightarrow> InsertConfessionParams \<Rightarrow> InsertConfessionResult outcome" where
  "insertConfession supabase params =
     (case supabase of
        None \<Rightarrow> Returns (Ok_false ''ERROR'' ''Not configured'')
      | Some client \<Rightarrow>
          (let rpcParams =
                 \<lparr>p_text = (text_in params), p_place_label = (placeLabel params),
                  p_ins_lat = (lat_in params), p_ins_lng = (lng_in params)\<rparr>
           in (case rpc_insert_confession client rpcParams of
                 RpcThrows \<Rightarrow> Returns (Ok_false ''ERROR'' ''Could not save confession'')
               | RpcError msg \<Rightarrow>
                   if js_includes msg ''EMPTY_TEXT''
                   then Returns (Ok_false ''EMPTY_TEXT'' ''Write something first.'')
                   else if js_includes msg ''TEXT_TOO_LONG''
                   then Returns (Ok_false ''TEXT_TOO_LONG'' ''Keep it under 120 characters.'')
                   else if js_includes msg ''CONTENT_BLOCKED''
                   then Returns (Ok_false ''CONTENT_BLOCKED''
                          (''This can't be shared.'' @ [CHR 0x0A]
                           @ ''Avoid names, contact details, or anything that could identify someone.''))
                   else if js_includes msg ''RATE_LIMIT''
                   then Returns (Ok_false ''RATE_LIMIT''
                          (''Slow down ''
                           @ [CHR 0xC3, CHR 0xA2, CHR 0xE2, CHR 0x82, CHR 0xAC, CHR 0xE2, CHR 0x80, CHR 0x9D]
                           @ '' try again in a few seconds.''))
                   else Returns (Ok_false ''ERROR'' ''Could not save confession'')
               | RpcData data \<Rightarrow>
                   (case first_row data of
                      None \<Rightarrow> Returns (Ok_false ''ERROR'' ''Could not save confession'')
                    | Some row \<Rightarrow>
                        Returns (Ok_true
                          \<lparr>conf_id = (conf_id row), conf_text = (conf_text row),
                           conf_created_at = (conf_created_at row),
                           conf_expires_at = (conf_expires_at row),
                           conf_lat = (conf_lat row), conf_lng = (conf_lng row)\<rparr>)))))"

section \<open>A client configured for a server\<close>

text \<open>The messages of the exceptions, as the procedures raise them.\<close>

fun pg_message :: "pg_exception \<Rightarrow> string" where
  "pg_message EMPTY_TEXT = ''EMPTY_TEXT: Confession text cannot be empty''"
| "pg_message TEXT_TOO_LONG = ''TEXT_TOO_LONG: Confession must be 120 characters or less''"
| "pg_message CONTENT_BLOCKED =
     ''CONTENT_BLOCKED: Please keep it abstract. This looks like it might identify a real person.''"
| "pg_message RATE_LIMIT = ''RATE_LIMIT: Please wait before posting again''"
| "pg_message LAT_LNG_REQUIRED = ''lat and lng are required for near mode''"
| "pg_message UNIQUE_VIOLATION = ''duplicate key value violates unique constraint''"

text \<open>
  The state a call meets on the server: the table, \<^verbatim>\<open>now()\<close>, the caller's \<^verbatim>\<open>auth.uid()\<close>
  and the identifier the next insert draws.
\<close>

record server =
  srv_confessions :: "confessions_row list"
  srv_now :: timestamptz
  srv_uid :: "uuid option"
  srv_new_id :: uuid

text \<open>
  The client with its credentials set, calling the two procedures on that server: a raised
  exception comes back as the call's \<^verbatim>\<open>error\<close>, the returned rows as its \<^verbatim>\<open>data\<close>.
\<close>

definition connected :: "server \<Rightarrow> supabase_client" where
  "connected srv =
     \<lparr>rpc_get_confess_feed =
        (\<lambda>a. case get_confess_feed (srv_confessions srv) (srv_now srv) a of
               Inl e \<Rightarrow> RpcError (pg_message e)
             | Inr rows \<Rightarrow> RpcData (Some rows)),
      rpc_insert_confession =
        (\<lambda>a. case insert_confession (srv_confessions srv) (srv_now srv) (srv_uid srv)
                     (srv_new_id srv) a of
               Inl e \<Rightarrow> RpcError (pg_message e)
             | Inr r \<Rightarrow> RpcData (DataArray (fst r)))\<rparr>"

section \<open>The session manager\<close>

record SessionState =
  sessionId :: string
  pageFetchCount :: nat
  adArmed :: bool
  adShown :: bool

text \<open>
  The module's memory: the variable \<^verbatim>\<open>state\<close> and the one stored item,
  \<^verbatim>\<open>lethe:lastBackgroundAt\<close> (\<open>None\<close> when it is not stored).
\<close>

record session_module =
  state :: SessionState
  lastBackgroundAt :: "int option"

definition BACKGROUND_THRESHOLD_MS :: int where
  "BACKGROUND_THRESHOLD_MS = 10 * 60 * 1000"

definition AD_TRIGGER_THRESHOLD :: nat where
  "AD_TRIGGER_THRESHOLD = 4"

text \<open>\<open>new_id\<close> is the identifier \<^verbatim>\<open>generateSessionId()\<close> draws.\<close>

definition startNewSession :: "string \<Rightarrow> session_module \<Rightarrow> session_module" where
  "startNewSession new_id m =
     \<lparr>state = \<lparr>sessionId = new_id, pageFetchCount = 0, adArmed = False, adShown = False\<rparr>,
      lastBackgroundAt = None\<rparr>"

definition initSessionIfNeeded :: "string \<Rightarrow> session_module \<Rightarrow> session_module" where
  "initSessionIfNeeded new_id m = startNewSession new_id m"

text \<open>\<open>now\<close> is \<^verbatim>\<open>Date.now()\<close>.\<close>

definition onAppBackground :: "int \<Rightarrow> session_module \<Rightarrow> session_module" where
  "onAppBackground now m = m\<lparr>lastBackgroundAt := Some now\<rparr>"

definition onAppForeground :: "int \<Rightarrow> string \<Rightarrow> session_module \<Rightarrow> session_module" where
  "onAppForeground now new_id m =
     (case lastBackgroundAt m of
        None \<Rightarrow> m
      | Some lastBackground \<Rightarrow>
          if now - lastBackground \<ge> BACKGROUND_THRESHOLD_MS
          then startNewSession new_id m
          else m\<lparr>lastBackgroundAt := None\<rparr>)"

definition recordPageFetch :: "session_module \<Rightarrow> session_module" where
  "recordPageFetch m =
     (if adShown (state m) then m
      else
        (let counted = (state m)\<lparr>pageFetchCount := pageFetchCount (state m) + 1\<rparr>
         in if \<not> adArmed counted \<and> pageFetchCount counted \<ge> AD_TRIGGER_THRESHOLD
            then m\<lparr>state := counted\<lparr>adArmed := True\<rparr>\<rparr>
            else m\<lparr>state := counted\<rparr>))"

definition markAdShown :: "session_module \<Rightarrow> session_module" where
  "markAdShown m = m\<lparr>state := (state m)\<lparr>adShown := True, adArmed := False\<rparr>\<rparr>"

definition isAdArmed :: "session_module \<Rightarrow> bool" where
  "isAdArmed m = (adArmed (state m) \<and> \<not> adShown (state m))"

definition hasAdShown :: "session_module \<Rightarrow> bool" where
  "hasAdShown m = adShown (state m)"

definition getPageFetchCount :: "session_module \<Rightarrow> nat" where
  "getPageFetchCount m = pageFetchCount (state m)"

text \<open>
  The lifecycle events after the cold start, each a call of one exported function with
  what it reads from outside: the clock, and the identifier a new session would get.
\<close>

datatype session_event =
  PageFetch | AdShown | AppBackground int | AppForeground int string

fun session_step :: "session_module \<Rightarrow> session_event \<Rightarrow> session_module" where
  "session_step m PageFetch = recordPageFetch m"
| "session_step m AdShown = markAdShown m"
| "session_step m (AppBackground now) = onAppBackground now m"
| "session_step m (AppForeground now new_id) = onAppForeground now new_id m"

text \<open>The event ends the session: a return to the foreground at or past the threshold.\<close>

fun starts_session :: "session_module \<Rightarrow> session_event \<Rightarrow> bool" where
  "starts_session m (AppForeground now new_id) =
     (case lastBackgroundAt m of
        None \<Rightarrow> False
      | Some lastBackground \<Rightarrow> now - lastBackground \<ge> BACKGROUND_THRESHOLD_MS)"
| "starts_session m e = False"

text \<open>
  The number of times, in the rest of the current session, that the ad is marked shown
  while it is armed.
\<close>

fun ad_transitions :: "session_module \<Rightarrow> session_event list \<Rightarrow> nat" where
  "ad_transitions m [] = 0"
| "ad_transitions m (e # es) =
     (if starts_session m e then 0
      else (if e = AdShown \<and> isAdArmed m then 1 else 0) + ad_transitions (session_step m e) es)"

section \<open>The edge function \<^verbatim>\<open>resolve_place\<close>\<close>
















section \<open>Notions the properties are stated with\<close>

text \<open>The conditions of the feed query other than the keyset condition.\<close>

definition eligible :: "timestamptz \<Rightarrow> feed_args \<Rightarrow> confessions_row \<Rightarrow> bool" where
  "eligible now a c =
     (visible now c
      \<and> (if p_mode a = Some ''near''
         then (case p_lat a of None \<Rightarrow> False
               | Some plat \<Rightarrow>
                   (case p_lng a of None \<Rightarrow> False
                    | Some plng \<Rightarrow> within_radius plat plng (v_radius a) c))
         else True))"

text \<open>All rows the feed query selects, in its order, before \<^verbatim>\<open>LIMIT\<close>.\<close>

definition selected :: "confessions_row list \<Rightarrow> timestamptz \<Rightarrow> feed_args \<Rightarrow> confessions_row list" where
  "selected tbl now a =
     order_by_desc
       (filter (\<lambda>c. eligible now a c \<and> keyset (p_cursor_created_at a) (p_cursor_id a) c) tbl)"

text \<open>The order \<open>(created_at DESC, id DESC)\<close> on returned rows.\<close>

definition conf_order :: "Confession \<Rightarrow> Confession \<Rightarrow> bool" where
  "conf_order a b =
     (conf_created_at b < conf_created_at a
      \<or> (conf_created_at b = conf_created_at a \<and> conf_id b \<le> conf_id a))"

text \<open>The text is rejected by one of the six checks of the content filter.\<close>

definition content_blocked :: "string \<Rightarrow> bool" where
  "content_blocked v =
     (blocks_at v \<or> blocks_url v \<or> blocks_tld v \<or> blocks_digits v \<or> blocks_plus v
      \<or> blocks_name v)"

subsection \<open>Example data\<close>

text \<open>A visible post without coordinates, created at \<open>t\<close> with identifier \<open>i\<close>.\<close>

definition post :: "timestamptz \<Rightarrow> uuid \<Rightarrow> confessions_row" where
  "post t i =
     \<lparr>c_id = i, c_text = ''x'', c_created_at = t, c_expires_at = 1000,
      c_is_hidden = Some False, c_lat = None, c_lng = None, c_user_id = None\<rparr>"

text \<open>A server whose table holds 51 visible posts, and the request for a page of 50.\<close>

definition full_server :: server where
  "full_server =
     \<lparr>srv_confessions =
       [post 50 50, post 49 49, post 48 48, post 47 47, post 46 46, post 45 45, post
        44 44, post 43 43, post 42 42, post 41 41, post 40 40, post 39 39, post 38
        38, post 37 37, post 36 36, post 35 35, post 34 34, post 33 33, post 32 32,
        post 31 31, post 30 30, post 29 29, post 28 28, post 27 27, post 26 26, post
        25 25, post 24 24, post 23 23, post 22 22, post 21 21, post 20 20, post 19
        19, post 18 18, post 17 17, post 16 16, post 15 15, post 14 14, post 13 13,
        post 12 12, post 11 11, post 10 10, post 9 9, post 8 8, post 7 7, post 6 6,
        post 5 5, post 4 4, post 3 3, post 2 2, post 1 1, post 0 0],
      srv_now = 100, srv_uid = None, srv_new_id = 99\<rparr>"

definition page_50 :: FetchFeedParams where
  "page_50 =
     \<lparr>mode = Mode_world, cursor = None, limit = Some 50, lat = None, lng = None,
      radiusM = None\<rparr>"

text \<open>Four posts, two of them created at the same time, and a query of the world feed.\<close>

definition four_posts :: "confessions_row list" where
  "four_posts = [post 10 9, post 20 2, post 30 3, post 20 5]"

definition feed_query :: feed_args where
  "feed_query =
     \<lparr>p_mode = Some ''world'', p_limit = Some 10, p_cursor_created_at = None,
      p_cursor_id = None, p_lat = None, p_lng = None, p_radius_m = None\<rparr>"

text \<open>
  Posts at latitude 0, longitude 0: a visible one, one without coordinates, a hidden one,
  an expired one, one whose hidden flag is \<^verbatim>\<open>NULL\<close>, one without longitude and one moved to
  the north pole; and a query for the posts within 100 meters of that point.
\<close>

definition at_origin :: "uuid \<Rightarrow> timestamptz \<Rightarrow> bool option \<Rightarrow> confessions_row" where
  "at_origin i expires hidden =
     \<lparr>c_id = i, c_text = ''x'', c_created_at = int i, c_expires_at = expires,
      c_is_hidden = hidden, c_lat = Some 0, c_lng = Some 0, c_user_id = None\<rparr>"

definition near_posts :: "confessions_row list" where
  "near_posts =
     [at_origin 1 1000 (Some False),
      (at_origin 2 1000 (Some False))\<lparr>c_lat := None, c_lng := None\<rparr>,
      at_origin 3 1000 (Some True),
      at_origin 4 100 (Some False),
      at_origin 5 1000 None,
      (at_origin 6 1000 (Some False))\<lparr>c_lng := None\<rparr>,
      (at_origin 7 1000 (Some False))\<lparr>c_lat := Some 90\<rparr>]"

definition near_query :: feed_args where
  "near_query =
     \<lparr>p_mode = Some ''near'', p_limit = Some 10, p_cursor_created_at = None,
      p_cursor_id = None, p_lat = Some 0, p_lng = Some 0, p_radius_m = Some 100\<rparr>"

text \<open>A call of the admission operation with the text \<open>txt\<close> and no place.\<close>

definition with_text :: "string \<Rightarrow> insert_args" where
  "with_text txt =
     \<lparr>p_text = Some txt, p_place_label = None, p_ins_lat = None, p_ins_lng = None\<rparr>"





text \<open>A post of actor 7, made one second after the epoch.\<close>

definition earlier_post :: confessions_row where
  "earlier_post =
     \<lparr>c_id = 1, c_text = ''first'', c_created_at = 1000000, c_expires_at = 86401000000,
      c_is_hidden = Some False, c_lat = None, c_lng = None, c_user_id = Some 7\<rparr>"

definition hello_args :: insert_args where
  "hello_args =
     \<lparr>p_text = Some ''hello'', p_place_label = None, p_ins_lat = None, p_ins_lng = None\<rparr>"

text \<open>The module before the application loads, and the session a cold start gives it.\<close>

definition unloaded :: session_module where
  "unloaded =
     \<lparr>state = \<lparr>sessionId = [], pageFetchCount = 0, adArmed = False, adShown = False\<rparr>,
      lastBackgroundAt = Some 5\<rparr>"

definition cold :: session_module where
  "cold = initSessionIfNeeded ''s1'' unloaded"

section \<open>Properties\<close>

lemmas session_eval =
  cold_def unloaded_def initSessionIfNeeded_def startNewSession_def recordPageFetch_def
  markAdShown_def isAdArmed_def onAppBackground_def onAppForeground_def
  AD_TRIGGER_THRESHOLD_def BACKGROUND_THRESHOLD_MS_def Let_def

lemmas feed_eval =
  get_confess_feed_def COALESCE_def v_limit_def v_radius_def visible_def keyset_def
  feed_order_def LIMIT_def select_fields_def within_radius_def

lemmas fetch_eval =
  fetchFeed_def connected_def DEFAULT_LIMIT_def slice0_def empty_feed_def Let_def
  rpcParams_def requestLimit_def

subsection \<open>The feed query\<close>

lemma set_insert_desc: "set (insert_desc c cs) = insert c (set cs)"
  by (induction cs) auto

lemma set_order_by_desc: "set (order_by_desc cs) = set cs"
  by (induction cs) (auto simp: set_insert_desc)

lemma feed_order_total: "\<not> feed_order a b \<Longrightarrow> feed_order b a"
  by (auto simp: feed_order_def)

lemma feed_order_trans: "feed_order a b \<Longrightarrow> feed_order b c \<Longrightarrow> feed_order a c"
  by (auto simp: feed_order_def)

lemma sorted_insert_desc:
  "sorted_wrt feed_order cs \<Longrightarrow> sorted_wrt feed_order (insert_desc c cs)"
proof (induction cs)
  case Nil
  show ?case by simp
next
  case (Cons d ds)
  show ?case
  proof (cases "feed_order c d")
    case True
    with Cons.prems show ?thesis by (auto intro: feed_order_trans)
  next
    case False
    then have "feed_order d c" by (rule feed_order_total)
    with False Cons show ?thesis by (auto simp: set_insert_desc)
  qed
qed

lemma sorted_order_by_desc: "sorted_wrt feed_order (order_by_desc cs)"
  by (induction cs) (auto simp: sorted_insert_desc)

lemma conf_order_select: "conf_order (select_fields a) (select_fields b) = feed_order a b"
  by (simp add: conf_order_def feed_order_def select_fields_def)

lemma sorted_select:
  "sorted_wrt feed_order cs \<Longrightarrow> sorted_wrt conf_order (map select_fields cs)"
  by (simp add: sorted_wrt_map conf_order_select)

lemma sorted_wrt_take: "sorted_wrt P xs \<Longrightarrow> sorted_wrt P (take n xs)"
  by (metis append_take_drop_id sorted_wrt_append)

lemma get_confess_feed_selected:
  "get_confess_feed tbl now a = Inr rows \<Longrightarrow>
     rows = map select_fields (LIMIT (v_limit a) (selected tbl now a))"
  by (auto simp: get_confess_feed_def selected_def eligible_def split: if_splits option.splits)

lemma get_confess_feed_returns:
  "p_mode a \<noteq> Some ''near'' \<or> (p_lat a \<noteq> None \<and> p_lng a \<noteq> None) \<Longrightarrow>
     get_confess_feed tbl now a = Inr (map select_fields (LIMIT (v_limit a) (selected tbl now a)))"
  by (auto simp: get_confess_feed_def selected_def eligible_def split: if_splits option.splits)

lemma in_selected:
  "c \<in> set (selected tbl now a) \<longleftrightarrow>
     c \<in> set tbl \<and> eligible now a c \<and> keyset (p_cursor_created_at a) (p_cursor_id a) c"
  by (auto simp: selected_def set_order_by_desc)

lemma in_LIMIT: "c \<in> set (LIMIT n cs) \<Longrightarrow> c \<in> set cs"
  by (auto simp: LIMIT_def dest: in_set_takeD)

text \<open>
  C2. Whenever the query returns rows, they stand in the order
  \<open>(created_at DESC, id DESC)\<close>; with a cursor \<open>(t, i)\<close> every returned row has
  \<open>created_at < t\<close>, or \<open>created_at = t\<close> and \<open>id < i\<close>; and without a cursor timestamp the
  rows are the first \<open>v_limit\<close> of all rows that meet the other conditions, no keyset
  condition applied.
\<close>

theorem keyset_pagination:
  "get_confess_feed tbl now a = Inr rows \<longrightarrow>
     sorted_wrt conf_order rows
     \<and> (p_cursor_created_at a = Some t \<and> p_cursor_id a = Some i \<longrightarrow>
          (\<forall>r \<in> set rows.
             conf_created_at r < t \<or> (conf_created_at r = t \<and> conf_id r < i)))
     \<and> (p_cursor_created_at a = None \<longrightarrow>
          rows = map select_fields
                   (LIMIT (v_limit a) (order_by_desc (filter (eligible now a) tbl))))"
proof (intro impI conjI)
  assume "get_confess_feed tbl now a = Inr rows"
  then have rows: "rows = map select_fields (LIMIT (v_limit a) (selected tbl now a))"
    by (rule get_confess_feed_selected)
  have "sorted_wrt feed_order (LIMIT (v_limit a) (selected tbl now a))"
    unfolding LIMIT_def selected_def by (intro sorted_wrt_take sorted_order_by_desc)
  then show "sorted_wrt conf_order rows"
    unfolding rows by (rule sorted_select)
  {
    assume cur: "p_cursor_created_at a = Some t \<and> p_cursor_id a = Some i"
    show "\<forall>r \<in> set rows.
             conf_created_at r < t \<or> (conf_created_at r = t \<and> conf_id r < i)"
    proof
      fix r assume "r \<in> set rows"
      then obtain c where cin: "c \<in> set (selected tbl now a)" and rc: "r = select_fields c"
        unfolding rows by (auto dest: in_LIMIT)
      from cin have "keyset (Some t) (Some i) c"
        using cur by (simp add: in_selected)
      then show "conf_created_at r < t \<or> (conf_created_at r = t \<and> conf_id r < i)"
        by (simp add: keyset_def rc select_fields_def)
    qed
  }
  {
    assume "p_cursor_created_at a = None"
    then show "rows = map select_fields
                   (LIMIT (v_limit a) (order_by_desc (filter (eligible now a) tbl)))"
      unfolding rows selected_def by (simp add: keyset_def)
  }
qed

text \<open>
  Of four posts, the query with the cursor \<open>(20, 5)\<close> returns the two below it, the one
  of the same time first; without a cursor it returns all four, newest first.
\<close>

theorem keyset_pagination_witness:
  "get_confess_feed four_posts 100
      (feed_query\<lparr>p_cursor_created_at := Some 20, p_cursor_id := Some 5\<rparr>)
     = Inr [select_fields (post 20 2), select_fields (post 10 9)]
   \<and> get_confess_feed four_posts 100 feed_query
     = Inr [select_fields (post 30 3), select_fields (post 20 5), select_fields (post 20 2),
            select_fields (post 10 9)]"
  using
    keyset_pagination [of four_posts 100
      "feed_query\<lparr>p_cursor_created_at := Some 20, p_cursor_id := Some 5\<rparr>"
      "[select_fields (post 20 2), select_fields (post 10 9)]" 20 5]
    keyset_pagination [of four_posts 100 feed_query
      "[select_fields (post 30 3), select_fields (post 20 5), select_fields (post 20 2),
        select_fields (post 10 9)]" 20 5]
  by (simp add: feed_eval four_posts_def feed_query_def post_def)

lemma v_radius_bound: "p_radius_m a = Some rad \<Longrightarrow> 100 \<le> rad \<Longrightarrow> v_radius a \<le> rad"
  by (simp add: v_radius_def COALESCE_def)

lemma origin_near: "distance_m 0 0 0 0 = 0"
  by (simp add: distance_m_def radians_def)

lemma north_pole_far: "distance_m 0 0 90 0 = 6371000 * (pi / 2)"
  by (simp add: distance_m_def radians_def)

lemma north_pole_out: "\<not> distance_m 0 0 90 0 \<le> 100"
proof -
  have "2 \<le> pi" by (rule pi_ge_two)
  then show ?thesis unfolding north_pole_far by simp
qed

text \<open>
  C3. Every row the query returns, in either mode, is a row of the table that has not
  expired (\<open>expires_at > now\<close>) and is not hidden. In near mode every returned row has
  both coordinates, and its distance from the query point is within the radius of the
  query: the clamped radius \<open>v_radius\<close>, hence the radius asked for whenever that is at
  least 100 meters. So a row that lacks a coordinate is never returned in near mode.
\<close>

theorem feed_filters:
  "get_confess_feed tbl now a = Inr rows \<longrightarrow>
     (\<forall>r \<in> set rows. \<exists>c \<in> set tbl.
        r = select_fields c
        \<and> c_expires_at c > now \<and> c_is_hidden c \<noteq> Some True
        \<and> (p_mode a = Some ''near'' \<longrightarrow>
             (\<exists>plat plng rlat rlng.
                p_lat a = Some plat \<and> p_lng a = Some plng
                \<and> conf_lat r = Some rlat \<and> conf_lng r = Some rlng
                \<and> distance_m plat plng rlat rlng \<le> real_of_int (v_radius a)
                \<and> (\<forall>rad. p_radius_m a = Some rad \<and> 100 \<le> rad \<longrightarrow>
                      distance_m plat plng rlat rlng \<le> real_of_int rad))))"
proof (intro impI ballI)
  fix r
  assume "get_confess_feed tbl now a = Inr rows"
  then have rows: "rows = map select_fields (LIMIT (v_limit a) (selected tbl now a))"
    by (rule get_confess_feed_selected)
  assume "r \<in> set rows"
  then obtain c where cin: "c \<in> set (selected tbl now a)" and rc: "r = select_fields c"
    unfolding rows by (auto dest: in_LIMIT)
  from cin have c: "c \<in> set tbl" "eligible now a c" by (simp_all add: in_selected)
  then have vis: "c_expires_at c > now" "c_is_hidden c \<noteq> Some True"
    by (auto simp: eligible_def visible_def COALESCE_def split: option.splits)
  have near: "\<exists>plat plng rlat rlng.
                p_lat a = Some plat \<and> p_lng a = Some plng
                \<and> conf_lat r = Some rlat \<and> conf_lng r = Some rlng
                \<and> distance_m plat plng rlat rlng \<le> real_of_int (v_radius a)
                \<and> (\<forall>rad. p_radius_m a = Some rad \<and> 100 \<le> rad \<longrightarrow>
                      distance_m plat plng rlat rlng \<le> real_of_int rad)"
    if "p_mode a = Some ''near''"
  proof -
    from c(2) that obtain plat plng rlat rlng where
      p: "p_lat a = Some plat" "p_lng a = Some plng" "c_lat c = Some rlat" "c_lng c = Some rlng"
      and d: "distance_m plat plng rlat rlng \<le> real_of_int (v_radius a)"
      by (auto simp: eligible_def within_radius_def split: option.splits)
    have "distance_m plat plng rlat rlng \<le> real_of_int rad"
      if "p_radius_m a = Some rad \<and> 100 \<le> rad" for rad
    proof -
      have "v_radius a \<le> rad" using that by (simp add: v_radius_bound)
      then have "real_of_int (v_radius a) \<le> real_of_int rad" by simp
      with d show ?thesis by linarith
    qed
    with p d show ?thesis by (simp add: rc select_fields_def)
  qed
  show "\<exists>c \<in> set tbl.
        r = select_fields c
        \<and> c_expires_at c > now \<and> c_is_hidden c \<noteq> Some True
        \<and> (p_mode a = Some ''near'' \<longrightarrow>
             (\<exists>plat plng rlat rlng.
                p_lat a = Some plat \<and> p_lng a = Some plng
                \<and> conf_lat r = Some rlat \<and> conf_lng r = Some rlng
                \<and> distance_m plat plng rlat rlng \<le> real_of_int (v_radius a)
                \<and> (\<forall>rad. p_radius_m a = Some rad \<and> 100 \<le> rad \<longrightarrow>
                      distance_m plat plng rlat rlng \<le> real_of_int rad)))"
    using c(1) rc vis near by blast
qed

text \<open>
  Of the seven posts the near query returns the visible one and the one whose hidden flag
  is \<^verbatim>\<open>NULL\<close>; the world query adds the two that lack a coordinate and the one at the
  pole. The hidden and the expired post are in neither.
\<close>

theorem feed_filters_witness:
  "get_confess_feed near_posts 500 near_query
     = Inr [select_fields (at_origin 5 1000 None), select_fields (at_origin 1 1000 (Some False))]
   \<and> get_confess_feed near_posts 500 (near_query\<lparr>p_mode := Some ''world''\<rparr>)
     = Inr [select_fields ((at_origin 7 1000 (Some False))\<lparr>c_lat := Some 90\<rparr>),
            select_fields ((at_origin 6 1000 (Some False))\<lparr>c_lng := None\<rparr>),
            select_fields (at_origin 5 1000 None),
            select_fields ((at_origin 2 1000 (Some False))\<lparr>c_lat := None, c_lng := None\<rparr>),
            select_fields (at_origin 1 1000 (Some False))]"
  using
    feed_filters [of near_posts 500 near_query
      "[select_fields (at_origin 5 1000 None), select_fields (at_origin 1 1000 (Some False))]"]
    feed_filters [of near_posts 500 "near_query\<lparr>p_mode := Some ''world''\<rparr>"
      "[select_fields ((at_origin 7 1000 (Some False))\<lparr>c_lat := Some 90\<rparr>),
        select_fields ((at_origin 6 1000 (Some False))\<lparr>c_lng := None\<rparr>),
        select_fields (at_origin 5 1000 None),
        select_fields ((at_origin 2 1000 (Some False))\<lparr>c_lat := None, c_lng := None\<rparr>),
        select_fields (at_origin 1 1000 (Some False))]"]
    origin_near north_pole_out
  by (simp add: feed_eval near_posts_def near_query_def at_origin_def)

subsection \<open>The feed wrapper on a server\<close>

lemma mode_string_near: "mode_string m = ''near'' \<longleftrightarrow> m = Mode_near"
  by (cases m) auto

lemma rpc_feed_connected:
  assumes "mode params = Mode_world \<or> (lat params \<noteq> None \<and> lng params \<noteq> None)"
  shows "rpc_get_confess_feed (connected srv) (rpcParams params)
     = RpcData (Some (map select_fields
         (LIMIT (v_limit (rpcParams params))
            (selected (srv_confessions srv) (srv_now srv) (rpcParams params)))))"
proof -
  have "p_mode (rpcParams params) \<noteq> Some ''near''
        \<or> (p_lat (rpcParams params) \<noteq> None \<and> p_lng (rpcParams params) \<noteq> None)"
    using assms by (auto simp: rpcParams_def mode_string_near)
  then show ?thesis
    by (simp add: connected_def get_confess_feed_returns)
qed

lemma v_limit_rpcParams:
  "v_limit (rpcParams params) = max 10 (min 50 (requestLimit params))"
  by (simp add: v_limit_def rpcParams_def COALESCE_def)

lemma fetchFeed_connected:
  assumes "mode params = Mode_world \<or> (lat params \<noteq> None \<and> lng params \<noteq> None)"
    and "lm = COALESCE (limit params) DEFAULT_LIMIT"
    and "items = map select_fields
            (LIMIT (max 10 (min 50 (requestLimit params)))
               (selected (srv_confessions srv) (srv_now srv) (rpcParams params)))"
    and "page = (if int (length items) > lm then slice0 items lm else items)"
  shows "fetchFeed (Some (connected srv)) params =
     Returns \<lparr>confessions = page,
        nextCursor = (if page = [] then None
                      else Some \<lparr>created_at = (conf_created_at (last page)),
                                 cursor_id = (conf_id (last page))\<rparr>),
        hasMore = (int (length items) > lm)\<rparr>"
proof -
  have n: "(mode params = Mode_near \<and> (lat params = None \<or> lng params = None)) = False"
    using assms(1) by auto
  show ?thesis
    unfolding fetchFeed_def assms(2-4)
    by (simp only: n if_False option.case rpc_feed_connected [OF assms(1)] rpc_result.case
          v_limit_rpcParams)
       (simp add: COALESCE_def Let_def)
qed

lemma last_select_fields:
  "(if map select_fields xs = [] then None
    else Some \<lparr>created_at = (conf_created_at (last (map select_fields xs))),
               cursor_id = (conf_id (last (map select_fields xs)))\<rparr>)
   = (case rev xs of [] \<Rightarrow> None
      | c # cs \<Rightarrow> Some \<lparr>created_at = (c_created_at c), cursor_id = (c_id c)\<rparr>)"
  by (cases xs rule: rev_cases) (simp_all add: select_fields_def)

text \<open>
  For a page size \<open>L\<close> from 10 to 49 the wrapper's request for \<open>L + 1\<close> rows passes the
  server's clamp: the page is the first \<open>L\<close> selected rows, the cursor is taken from the
  last row of the page, and \<open>hasMore\<close> tells whether more than \<open>L\<close> rows are selected.
\<close>

lemma fetchFeed_has_more:
  assumes ok: "mode params = Mode_world \<or> (lat params \<noteq> None \<and> lng params \<noteq> None)"
    and L: "limit params = Some L" "10 \<le> L" "L \<le> 49"
  shows "fetchFeed (Some (connected srv)) params =
     Returns
       \<lparr>confessions =
          map select_fields
            (take (nat L) (selected (srv_confessions srv) (srv_now srv) (rpcParams params))),
        nextCursor =
          (case rev (take (nat L) (selected (srv_confessions srv) (srv_now srv) (rpcParams params))) of
             [] \<Rightarrow> None
           | c # cs \<Rightarrow> Some \<lparr>created_at = (c_created_at c), cursor_id = (c_id c)\<rparr>),
        hasMore = (length (selected (srv_confessions srv) (srv_now srv) (rpcParams params)) > nat L)\<rparr>"
proof -
  define S where "S = selected (srv_confessions srv) (srv_now srv) (rpcParams params)"
  define items where "items = map select_fields (LIMIT (L + 1) S)"
  define page where "page = (if int (length items) > L then slice0 items L else items)"
  have lm: "max 10 (min 50 (requestLimit params)) = L + 1"
    using L by (simp add: requestLimit_def COALESCE_def)
  have more: "int (length items) > L \<longleftrightarrow> length S > nat L"
    using L by (auto simp: items_def LIMIT_def)
  have page_eq: "page = map select_fields (take (nat L) S)"
    using L by (auto simp: page_def items_def LIMIT_def slice0_def take_map [symmetric] min_def nat_add_distrib)
  have "fetchFeed (Some (connected srv)) params =
     Returns \<lparr>confessions = page,
        nextCursor = (if page = [] then None
                      else Some \<lparr>created_at = (conf_created_at (last page)),
                                 cursor_id = (conf_id (last page))\<rparr>),
        hasMore = (int (length items) > L)\<rparr>"
    by (rule fetchFeed_connected [OF ok])
       (simp_all add: L(1) COALESCE_def lm items_def S_def page_def)
  also have "\<dots> = Returns
       \<lparr>confessions = map select_fields (take (nat L) S),
        nextCursor =
          (case rev (take (nat L) S) of
             [] \<Rightarrow> None
           | c # cs \<Rightarrow> Some \<lparr>created_at = (c_created_at c), cursor_id = (c_id c)\<rparr>),
        hasMore = (length S > nat L)\<rparr>"
    unfolding more page_eq last_select_fields ..
  finally show ?thesis unfolding S_def .
qed

text \<open>
  At the page size 50 the request for 51 rows is clamped to 50 by the server: whatever the
  table holds, no extra row comes back and \<open>hasMore\<close> is false.
\<close>

lemma fetchFeed_50_no_more:
  assumes ok: "mode params = Mode_world \<or> (lat params \<noteq> None \<and> lng params \<noteq> None)"
    and L: "limit params = Some 50"
  shows "fetchFeed (Some (connected srv)) params =
     Returns
       \<lparr>confessions =
          map select_fields
            (take 50 (selected (srv_confessions srv) (srv_now srv) (rpcParams params))),
        nextCursor =
          (case rev (take 50 (selected (srv_confessions srv) (srv_now srv) (rpcParams params))) of
             [] \<Rightarrow> None
           | c # cs \<Rightarrow> Some \<lparr>created_at = (c_created_at c), cursor_id = (c_id c)\<rparr>),
        hasMore = False\<rparr>"
proof -
  define S where "S = selected (srv_confessions srv) (srv_now srv) (rpcParams params)"
  define items where "items = map select_fields (LIMIT 50 S)"
  have lm: "max 10 (min 50 (requestLimit params)) = 50"
    using L by (simp add: requestLimit_def COALESCE_def)
  have more: "\<not> int (length items) > 50"
    by (auto simp: items_def LIMIT_def)
  have "fetchFeed (Some (connected srv)) params =
     Returns \<lparr>confessions = items,
        nextCursor = (if items = [] then None
                      else Some \<lparr>created_at = (conf_created_at (last items)),
                                 cursor_id = (conf_id (last items))\<rparr>),
        hasMore = (int (length items) > 50)\<rparr>"
    by (rule fetchFeed_connected [OF ok])
       (simp_all add: L COALESCE_def lm items_def S_def LIMIT_def)
  also have "\<dots> = Returns
       \<lparr>confessions = map select_fields (take 50 S),
        nextCursor =
          (case rev (take 50 S) of
             [] \<Rightarrow> None
           | c # cs \<Rightarrow> Some \<lparr>created_at = (c_created_at c), cursor_id = (c_id c)\<rparr>),
        hasMore = False\<rparr>"
    using more unfolding items_def last_select_fields by (simp add: LIMIT_def)
  finally show ?thesis unfolding S_def .
qed

text \<open>
  C1, at the page size 50. The table holds 51 visible posts. The wrapper asks for 51
  rows, the server returns 50, and the wrapper reports the 50 newest with \<open>hasMore\<close>
  false and the cursor of the fiftieth; yet the request with that cursor returns the
  remaining post.
\<close>

theorem has_more_lost_at_page_size_50:
  "fetchFeed (Some (connected full_server)) page_50
     = Returns \<lparr>confessions = map select_fields (butlast (srv_confessions full_server)),
                nextCursor = Some \<lparr>created_at = 1, cursor_id = 1\<rparr>, hasMore = False\<rparr>
   \<and> length (srv_confessions full_server) = 51
   \<and> p_limit (rpcParams page_50) = Some 51
   \<and> fetchFeed (Some (connected full_server))
        (page_50\<lparr>cursor := Some \<lparr>created_at = 1, cursor_id = 1\<rparr>\<rparr>)
     = Returns \<lparr>confessions = [select_fields (post 0 0)],
                nextCursor = Some \<lparr>created_at = 0, cursor_id = 0\<rparr>, hasMore = False\<rparr>"
  by (simp add: feed_eval fetch_eval full_server_def page_50_def post_def)

subsection \<open>The client without credentials\<close>

lemma fetchFeed_never_throws: "fetchFeed supabase params \<noteq> Throws"
  by (simp add: fetchFeed_def Let_def split: option.splits rpc_result.splits)

lemma insertConfession_never_throws: "insertConfession supabase ins \<noteq> Throws"
  by (simp add: insertConfession_def Let_def split: option.splits rpc_result.splits)

text \<open>
  C9. Without a configured client (\<open>None\<close>) \<open>fetchFeed\<close> returns the empty result and
  \<open>insertConfession\<close> returns the failure \<^verbatim>\<open>{ok: false, error: 'ERROR'}\<close>; and with or
  without a client, neither of the two ever throws to its caller.
\<close>

theorem not_configured_fails_closed:
  "fetchFeed None params = Returns \<lparr>confessions = [], nextCursor = None, hasMore = False\<rparr>
   \<and> insertConfession None ins = Returns (Ok_false ''ERROR'' ''Not configured'')
   \<and> fetchFeed supabase params \<noteq> Throws
   \<and> insertConfession supabase ins \<noteq> Throws"
  by (simp add: fetchFeed_never_throws insertConfession_never_throws)
     (simp add: fetchFeed_def insertConfession_def empty_feed_def)

subsection \<open>The admission filter\<close>

lemma in_dropWhile: "x \<in> set xs \<Longrightarrow> \<not> P x \<Longrightarrow> x \<in> set (dropWhile P xs)"
  by (induction xs) auto

lemma in_btrim: "c \<in> set txt \<Longrightarrow> c \<noteq> CHR '' '' \<Longrightarrow> c \<in> set (btrim txt)"
  by (simp add: btrim_def in_dropWhile)



lemma btrim_replicate: "c \<noteq> CHR '' '' \<Longrightarrow> btrim (replicate n c) = replicate n c"
  by (simp add: btrim_def)







text \<open>What the six checks do and do not match, on short texts.\<close>

lemma content_filter_examples:
  "blocks_tld ''see example.com now'' \<and> \<not> blocks_tld ''see example.computer now''
   \<and> blocks_tld ''vg.NO'' \<and> blocks_url ''go to WWW.x'' \<and> \<not> blocks_url ''awww. cute''
   \<and> blocks_url ''HTTPS://x'' \<and> blocks_plus ''ring + 4'' \<and> \<not> blocks_plus ''1 + one''
   \<and> blocks_digits ''12 34 56 78'' \<and> \<not> blocks_digits ''1234567''
   \<and> blocks_name ''Kari  Nordmann'' \<and> \<not> blocks_name ''I saw john Smith''
   \<and> \<not> blocks_name ''McDonald Smith''"
  by code_simp





text \<open>
  C6, as amended. A text that contains an at sign is rejected with \<^verbatim>\<open>CONTENT_BLOCKED\<close>
  when its trimmed length is at most 120 characters, and with \<^verbatim>\<open>TEXT_TOO_LONG\<close> when it
  is longer: the length is checked before the content.
\<close>

theorem at_sign_rejected:
  "CHR ''@'' \<in> set txt \<and> p_text a = Some txt \<longrightarrow>
     (length (btrim txt) \<le> 120 \<longrightarrow>
        insert_confession tbl now uid new_id a = Inl CONTENT_BLOCKED)
     \<and> (length (btrim txt) > 120 \<longrightarrow>
        insert_confession tbl now uid new_id a = Inl TEXT_TOO_LONG)"
proof (intro impI conjI)
  assume h: "CHR ''@'' \<in> set txt \<and> p_text a = Some txt"
  then have at: "CHR ''@'' \<in> set (btrim txt)" by (simp add: in_btrim)
  then have ne: "btrim txt \<noteq> []" by auto
  {
    assume "length (btrim txt) \<le> 120"
    with h at ne show "insert_confession tbl now uid new_id a = Inl CONTENT_BLOCKED"
      by (simp add: insert_confession_def blocks_at_def)
  }
  {
    assume "length (btrim txt) > 120"
    with h ne show "insert_confession tbl now uid new_id a = Inl TEXT_TOO_LONG"
      by (simp add: insert_confession_def)
  }
qed

theorem at_sign_rejected_witness:
  "insert_confession [] 5 None 1 (with_text ''contact@x.com'') = Inl CONTENT_BLOCKED
   \<and> insert_confession [] 5 None 1 (with_text (CHR ''@'' # replicate 119 (CHR ''a'')))
       = Inl CONTENT_BLOCKED
   \<and> insert_confession [] 5 None 1 (with_text (CHR ''@'' # replicate 120 (CHR ''a'')))
       = Inl TEXT_TOO_LONG"
  using at_sign_rejected [of "''contact@x.com''" "with_text ''contact@x.com''" "[]" 5 None 1]
    at_sign_rejected [of "CHR ''@'' # replicate 119 (CHR ''a'')"
      "with_text (CHR ''@'' # replicate 119 (CHR ''a''))" "[]" 5 None 1]
    at_sign_rejected [of "CHR ''@'' # replicate 120 (CHR ''a'')"
      "with_text (CHR ''@'' # replicate 120 (CHR ''a''))" "[]" 5 None 1]
  by (simp add: with_text_def btrim_def)

text \<open>
  C6, as stated, fails: a text of 121 at signs contains an at sign and is rejected with
  \<^verbatim>\<open>TEXT_TOO_LONG\<close>, not with \<^verbatim>\<open>CONTENT_BLOCKED\<close>.
\<close>

theorem at_sign_too_long_counterexample:
  "CHR ''@'' \<in> set (replicate 121 (CHR ''@''))
   \<and> insert_confession [] 5 None 1 (with_text (replicate 121 (CHR ''@''))) = Inl TEXT_TOO_LONG
   \<and> insert_confession [] 5 None 1 (with_text (replicate 121 (CHR ''@''))) \<noteq> Inl CONTENT_BLOCKED"
  by (simp add: insert_confession_def with_text_def btrim_replicate)

subsection \<open>The rate limiter\<close>

lemma newest_None: "newest ts = None \<longleftrightarrow> ts = []"
  by (induction ts) (auto split: option.splits)

lemma newest_Some_mem: "newest ts = Some t \<Longrightarrow> t \<in> set ts"
  by (induction ts arbitrary: t) (auto split: option.splits simp: max_def)

lemma newest_Some_upper: "newest ts = Some t \<Longrightarrow> s \<in> set ts \<Longrightarrow> s \<le> t"
  by (induction ts arbitrary: t) (auto split: option.splits simp: max_def newest_None)

lemma newest_eqI:
  assumes "t \<in> set ts" and "\<And>s. s \<in> set ts \<Longrightarrow> s \<le> t"
  shows "newest ts = Some t"
proof (cases "newest ts")
  case None
  with assms(1) show ?thesis by (simp add: newest_None)
next
  case (Some m)
  have "m \<in> set ts" using Some by (rule newest_Some_mem)
  then have "m \<le> t" by (rule assms(2))
  moreover have "t \<le> m" using Some assms(1) by (rule newest_Some_upper)
  ultimately show ?thesis using Some by simp
qed

lemma last_post_latest:
  assumes "r \<in> set tbl" and "c_user_id r = Some uid"
    and "\<And>r'. r' \<in> set tbl \<Longrightarrow> c_user_id r' = Some uid \<Longrightarrow> c_created_at r' \<le> c_created_at r"
  shows "last_post tbl uid = Some (c_created_at r)"
  unfolding last_post_def
  by (rule newest_eqI) (use assms in auto)

lemma last_post_none:
  "last_post tbl uid = None \<longleftrightarrow> (\<forall>r \<in> set tbl. c_user_id r \<noteq> Some uid)"
  by (auto simp: last_post_def newest_None filter_empty_conv)

lemma insert_confession_admitted:
  assumes "p_text a = Some txt" and "btrim txt \<noteq> []" and "length (btrim txt) \<le> 120"
    and "\<not> content_blocked (btrim txt)"
  shows "insert_confession tbl now v_user_id new_id a = Inl RATE_LIMIT
           \<longleftrightarrow> rate_limited tbl now v_user_id"
  using assms by (simp add: insert_confession_def content_blocked_def Let_def)

lemma hello_not_blocked: "\<not> content_blocked (btrim ''hello'')"
  by code_simp

text \<open>
  C5. Let \<open>r\<close> be the newest row of actor \<open>uid\<close> in the table. The rate limiter rejects a
  call of that actor exactly when less than 15 seconds have passed since \<open>r\<close> was created
  (at 15 seconds and later it lets the call pass); it lets every call of an actor without a
  row pass; and the procedure raises \<^verbatim>\<open>RATE_LIMIT\<close> for a text that passed the checks
  before it exactly when the rate limiter rejects.
\<close>

theorem rate_limit_cooldown:
  "(r \<in> set tbl \<and> c_user_id r = Some uid
      \<and> (\<forall>r' \<in> set tbl. c_user_id r' = Some uid \<longrightarrow> c_created_at r' \<le> c_created_at r)
     \<longrightarrow> (rate_limited tbl now (Some uid) \<longleftrightarrow> now - c_created_at r < 15000000))
   \<and> ((\<forall>r' \<in> set tbl. c_user_id r' \<noteq> Some uid) \<longrightarrow> \<not> rate_limited tbl now (Some uid))
   \<and> (p_text a = Some txt \<and> btrim txt \<noteq> [] \<and> length (btrim txt) \<le> 120
        \<and> \<not> content_blocked (btrim txt)
     \<longrightarrow> (insert_confession tbl now (Some uid) new_id a = Inl RATE_LIMIT
            \<longleftrightarrow> rate_limited tbl now (Some uid)))"
proof (intro conjI impI)
  assume "r \<in> set tbl \<and> c_user_id r = Some uid
      \<and> (\<forall>r' \<in> set tbl. c_user_id r' = Some uid \<longrightarrow> c_created_at r' \<le> c_created_at r)"
  then have "last_post tbl uid = Some (c_created_at r)"
    by (intro last_post_latest) auto
  then show "rate_limited tbl now (Some uid) \<longleftrightarrow> now - c_created_at r < 15000000"
    by (auto simp: rate_limited_def)
next
  assume "\<forall>r' \<in> set tbl. c_user_id r' \<noteq> Some uid"
  then have "last_post tbl uid = None" by (simp add: last_post_none)
  then show "\<not> rate_limited tbl now (Some uid)" by (simp add: rate_limited_def)
next
  assume "p_text a = Some txt \<and> btrim txt \<noteq> [] \<and> length (btrim txt) \<le> 120
        \<and> \<not> content_blocked (btrim txt)"
  then show "insert_confession tbl now (Some uid) new_id a = Inl RATE_LIMIT
            \<longleftrightarrow> rate_limited tbl now (Some uid)"
    by (simp add: insert_confession_admitted)
qed

text \<open>
  Actor 7 posted at second 1. A second post 14.999999 seconds later is rejected, one
  exactly 15 seconds later is stored, and actor 8, who has no post, is not held back.
\<close>

theorem rate_limit_cooldown_witness:
  "insert_confession [earlier_post] 15999999 (Some 7) 2 hello_args = Inl RATE_LIMIT
   \<and> insert_confession [earlier_post] 16000000 (Some 7) 2 hello_args
       = Inr ([\<lparr>conf_id = 2, conf_text = ''hello'', conf_created_at = 16000000,
                conf_expires_at = 86416000000, conf_lat = None, conf_lng = None\<rparr>],
              [earlier_post,
               \<lparr>c_id = 2, c_text = ''hello'', c_created_at = 16000000,
                c_expires_at = 86416000000, c_is_hidden = Some False, c_lat = None,
                c_lng = None, c_user_id = Some 7\<rparr>])
   \<and> insert_confession [earlier_post] 1000001 (Some 8) 2 hello_args \<noteq> Inl RATE_LIMIT"
  using
    rate_limit_cooldown [of earlier_post "[earlier_post]" 7 15999999 hello_args "''hello''" 2]
    rate_limit_cooldown [of earlier_post "[earlier_post]" 7 16000000 hello_args "''hello''" 2]
    rate_limit_cooldown [of earlier_post "[earlier_post]" 8 1000001 hello_args "''hello''" 2]
    hello_not_blocked
  by (simp add: earlier_post_def hello_args_def btrim_def insert_confession_def
      select_fields_def content_blocked_def Let_def)

text \<open>
  C10. A call without an actor (\<^verbatim>\<open>auth.uid()\<close> is \<^verbatim>\<open>NULL\<close>) skips the rate limiting block:
  whatever the table holds and whatever the time is, the rate limiter does not reject it
  and the procedure does not raise \<^verbatim>\<open>RATE_LIMIT\<close>.
\<close>

theorem no_actor_no_rate_limit:
  "rate_limited tbl now None = False
   \<and> insert_confession tbl now None new_id a \<noteq> Inl RATE_LIMIT"
  by (simp add: rate_limited_def insert_confession_def Let_def split: option.splits)

subsection \<open>The session manager\<close>

lemma recordPageFetch_after_ad: "adShown (state m) \<Longrightarrow> recordPageFetch m = m"
  by (simp add: recordPageFetch_def)

lemma recordPageFetch_counts:
  "\<not> adShown (state m) \<Longrightarrow>
     pageFetchCount (state (recordPageFetch m)) = pageFetchCount (state m) + 1
     \<and> adArmed (state (recordPageFetch m)) = (adArmed (state m) \<or> pageFetchCount (state m) + 1 \<ge> 4)
     \<and> adShown (state (recordPageFetch m)) = False"
  by (auto simp: recordPageFetch_def Let_def AD_TRIGGER_THRESHOLD_def)

lemma fetches_from_cold_start:
  "pageFetchCount (state ((recordPageFetch ^^ n) (initSessionIfNeeded sid m0))) = n
   \<and> adArmed (state ((recordPageFetch ^^ n) (initSessionIfNeeded sid m0))) = (n \<ge> 4)
   \<and> \<not> adShown (state ((recordPageFetch ^^ n) (initSessionIfNeeded sid m0)))"
proof (induction n)
  case 0
  show ?case by (simp add: initSessionIfNeeded_def startNewSession_def)
next
  case (Suc n)
  then show ?case
    using recordPageFetch_counts [of "(recordPageFetch ^^ n) (initSessionIfNeeded sid m0)"]
    by auto
qed

lemma step_keeps_shown:
  "adShown (state m) \<Longrightarrow> \<not> starts_session m e \<Longrightarrow> adShown (state (session_step m e))"
  by (cases e)
     (auto simp: recordPageFetch_def markAdShown_def onAppBackground_def onAppForeground_def
        split: option.splits)

lemma shown_no_transitions: "adShown (state m) \<Longrightarrow> ad_transitions m es = 0"
proof (induction es arbitrary: m)
  case Nil
  show ?case by simp
next
  case (Cons e es)
  show ?case
  proof (cases "starts_session m e")
    case True
    then show ?thesis by simp
  next
    case False
    with Cons.prems have "adShown (state (session_step m e))" by (simp add: step_keeps_shown)
    then have "ad_transitions (session_step m e) es = 0" by (rule Cons.IH)
    with False Cons.prems show ?thesis by (simp add: isAdArmed_def)
  qed
qed

lemma ad_transitions_le_1: "ad_transitions m es \<le> 1"
proof (induction es arbitrary: m)
  case Nil
  show ?case by simp
next
  case (Cons e es)
  show ?case
  proof (cases "e = AdShown \<and> isAdArmed m")
    case True
    then have "adShown (state (session_step m e))" by (simp add: markAdShown_def)
    then have "ad_transitions (session_step m e) es = 0" by (rule shown_no_transitions)
    with True show ?thesis by simp
  next
    case False
    then show ?thesis using Cons.IH [of "session_step m e"] by auto
  qed
qed

text \<open>
  C7. A cold start gives a session with counter 0, the ad neither armed nor shown. A
  recorded page fetch leaves the module as it is once the ad has been shown, and otherwise
  adds one to the counter and arms the ad when the counter has reached 4; so after \<open>n\<close>
  fetches from the cold start the counter is \<open>n\<close> and the ad is armed exactly from the
  fourth fetch on. Marking the ad shown sets \<open>adShown\<close> and clears \<open>adArmed\<close>. From any
  state of the module and through any events, the ad is marked shown while armed at most
  once before the session ends.
\<close>

theorem session_ad_gating:
  "state (initSessionIfNeeded sid m0)
     = \<lparr>sessionId = sid, pageFetchCount = 0, adArmed = False, adShown = False\<rparr>
   \<and> (adShown (state m) \<longrightarrow> recordPageFetch m = m)
   \<and> (\<not> adShown (state m) \<longrightarrow>
        pageFetchCount (state (recordPageFetch m)) = pageFetchCount (state m) + 1
        \<and> adArmed (state (recordPageFetch m))
            = (adArmed (state m) \<or> pageFetchCount (state m) + 1 \<ge> 4))
   \<and> pageFetchCount (state ((recordPageFetch ^^ n) (initSessionIfNeeded sid m0))) = n
   \<and> isAdArmed ((recordPageFetch ^^ n) (initSessionIfNeeded sid m0)) = (n \<ge> 4)
   \<and> adShown (state (markAdShown m)) \<and> \<not> adArmed (state (markAdShown m))
   \<and> \<not> isAdArmed (markAdShown m)
   \<and> ad_transitions m es \<le> 1"
proof -
  have a: "state (initSessionIfNeeded sid m0)
     = \<lparr>sessionId = sid, pageFetchCount = 0, adArmed = False, adShown = False\<rparr>"
    by (simp add: initSessionIfNeeded_def startNewSession_def)
  have b: "adShown (state m) \<longrightarrow> recordPageFetch m = m"
    by (simp add: recordPageFetch_after_ad)
  have c: "\<not> adShown (state m) \<longrightarrow>
        pageFetchCount (state (recordPageFetch m)) = pageFetchCount (state m) + 1
        \<and> adArmed (state (recordPageFetch m))
            = (adArmed (state m) \<or> pageFetchCount (state m) + 1 \<ge> 4)"
    using recordPageFetch_counts [of m] by simp
  have d: "pageFetchCount (state ((recordPageFetch ^^ n) (initSessionIfNeeded sid m0))) = n"
    and e: "isAdArmed ((recordPageFetch ^^ n) (initSessionIfNeeded sid m0)) = (n \<ge> 4)"
    using fetches_from_cold_start [of n sid m0] by (simp_all add: isAdArmed_def)
  have f: "adShown (state (markAdShown m)) \<and> \<not> adArmed (state (markAdShown m))
     \<and> \<not> isAdArmed (markAdShown m)"
    by (simp add: markAdShown_def isAdArmed_def)
  show ?thesis using a b c d e f ad_transitions_le_1 [of m es] by blast
qed

text \<open>
  The session of the specification: not armed after three fetches, armed on the fourth;
  the ad is shown; the fifth fetch is not counted; and of two calls that mark the ad
  shown only the first happens while it is armed.
\<close>

theorem session_ad_gating_witness:
  "pageFetchCount (state cold) = 0 \<and> \<not> isAdArmed cold
   \<and> \<not> isAdArmed ((recordPageFetch ^^ 3) cold)
   \<and> isAdArmed ((recordPageFetch ^^ 4) cold)
   \<and> pageFetchCount (state ((recordPageFetch ^^ 4) cold)) = 4
   \<and> adShown (state (markAdShown ((recordPageFetch ^^ 4) cold)))
   \<and> recordPageFetch (markAdShown ((recordPageFetch ^^ 4) cold))
       = markAdShown ((recordPageFetch ^^ 4) cold)
   \<and> pageFetchCount (state (recordPageFetch cold)) = 1
   \<and> ad_transitions cold
        [PageFetch, PageFetch, PageFetch, PageFetch, AdShown, PageFetch, AdShown, PageFetch] = 1"
  using
    session_ad_gating [of "''s1''" unloaded "markAdShown ((recordPageFetch ^^ 4) cold)" 4
      "[PageFetch, PageFetch, PageFetch, PageFetch, AdShown, PageFetch, AdShown, PageFetch]"]
    session_ad_gating [of "''s1''" unloaded cold 3 "[]"]
  by (simp add: session_eval eval_nat_numeral)

subsection \<open>The place resolution\<close>








end
